theory Spec2Isabelle
  imports Complex_Main "HOL-Library.FSet" "HOL-Library.Char_ord" "HOL-Library.List_Lexorder"
begin

section \<open>Decoded wire values\<close>

text \<open>
  The three components read their input through the JSON codec. The codec is an external
  library; what the components use of it is modelled here on decoded values. The type
  \<open>'d\<close> stands for \<^verbatim>\<open>double\<close>: the code copies such values, compares them with
  \<^verbatim>\<open><\<close> and \<^verbatim>\<open>></\<close> and uses the constant \<^verbatim>\<open>0.0\<close>, so the model only asks
  for a type with \<open>0\<close> and \<open><\<close> and assumes no law about them. A number of any JSON
  number kind is carried as the \<^verbatim>\<open>double\<close> that \<^verbatim>\<open>get<double>()\<close> yields.
  An object is the list of its members; lookup takes the first member with the key.
\<close>

datatype 'd json =
    JNull
  | JBool bool
  | JNumber 'd
  | JString string
  | JArray "'d json list"
  | JObject "(string \<times> 'd json) list"

text \<open>A text between double quotes, as it appears inside the messages the code builds.\<close>

definition quoted :: "string \<Rightarrow> string" where
  "quoted t = CHR 0x22 # t @ [CHR 0x22]"

text \<open>\<^verbatim>\<open>j.contains(key)\<close>: true only for an object that has the key.\<close>

fun contains :: "'d json \<Rightarrow> string \<Rightarrow> bool" where
  "contains (JObject kvs) k = (map_of kvs k \<noteq> None)"
| "contains _ k = False"

text \<open>
  \<^verbatim>\<open>j[key]\<close> on a mutable value: an object yields the member, or null for a key it
  does not have; null behaves as an empty object; any other value throws.
  \<open>None\<close> is the thrown exception.
\<close>

fun at_key :: "'d json \<Rightarrow> string \<Rightarrow> 'd json option" where
  "at_key (JObject kvs) k = Some (case map_of kvs k of Some v \<Rightarrow> v | None \<Rightarrow> JNull)"
| "at_key JNull k = Some JNull"
| "at_key _ k = None"

text \<open>
  \<^verbatim>\<open>j[key]\<close> on a \<^verbatim>\<open>const\<close> value: a value that is not an object throws, and an
  object is required to have the key (the library asserts it, and reads past the end of
  the object when assertions are compiled out).
\<close>

datatype 'a access = Value 'a | Throws | AssertionFails

fun at_key_const :: "'d json \<Rightarrow> string \<Rightarrow> 'd json access" where
  "at_key_const (JObject kvs) k =
     (case map_of kvs k of Some v \<Rightarrow> Value v | None \<Rightarrow> AssertionFails)"
| "at_key_const _ k = Throws"

text \<open>\<^verbatim>\<open>get<std::string>()\<close> and \<^verbatim>\<open>get<double>()\<close>; \<open>None\<close> is the thrown type error.\<close>

fun get_string :: "'d json \<Rightarrow> string option" where
  "get_string (JString s) = Some s"
| "get_string _ = None"

fun get_double :: "'d json \<Rightarrow> 'd option" where
  "get_double (JNumber d) = Some d"
| "get_double _ = None"

text \<open>
  The values a range-based \<^verbatim>\<open>for\<close> visits: the elements of an array, the member
  values of an object, nothing for null, and the value itself for any other value.
\<close>

fun elements :: "'d json \<Rightarrow> 'd json list" where
  "elements (JArray xs) = xs"
| "elements (JObject kvs) = map snd kvs"
| "elements JNull = []"
| "elements j = [j]"

fun is_array :: "'d json \<Rightarrow> bool" where
  "is_array (JArray xs) = True"
| "is_array _ = False"

section \<open>Order registry\<close>

datatype Side = BUY | SELL

datatype Type = LIMIT | MARKET

datatype Status = PENDING | OPEN | FILLED | PARTIALLY_FILLED | CANCELLED | REJECTED

text \<open>Timestamps are clock ticks (\<^verbatim>\<open>int64_t\<close>); they are stored and compared, never computed with.\<close>

record 'd Order =
  order_id :: string
  instrument :: string
  side :: Side
  type :: Type
  price :: 'd
  amount :: 'd
  filled_amount :: 'd
  status :: Status
  error_message :: string
  creation_timestamp :: int
  last_update_timestamp :: int

text \<open>The requests the registry hands to the exchange client.\<close>

datatype 'd request =
    PlaceOrderRequest string bool 'd 'd string
  | CancelOrderRequest string
  | ModifyOrderRequest string 'd 'd

text \<open>
  \<open>orders\<close> and \<open>positions\<close> are the two tables of \<^verbatim>\<open>OrderManager\<close>;
  \<open>requests\<close> records, in order, the calls made on the exchange client.
\<close>

record 'd OrderManager =
  orders :: "string \<rightharpoonup> 'd Order"
  positions :: "string \<rightharpoonup> 'd"
  requests :: "'d request list"

definition OrderManager_init :: "'d OrderManager" where
  "OrderManager_init = \<lparr>orders = Map.empty, positions = Map.empty, requests = []\<rparr>"

text \<open>\<^verbatim>\<open>std::to_string\<close> on a tick count: decimal digits, with a sign for a negative count.\<close>

fun digits :: "nat \<Rightarrow> string" where
  "digits n = (if n < 10 then [char_of (48 + n)] else digits (n div 10) @ [char_of (48 + n mod 10)])"

declare digits.simps [simp del]

definition to_string :: "int \<Rightarrow> string" where
  "to_string i = (if i < 0 then CHR ''-'' # digits (nat (- i)) else digits (nat i))"

text \<open>
  The exchange client's request calls. The transport behind them is a placeholder: every
  request is answered with the same fixed response, and cancel and modify report success.
\<close>

definition makeRequest :: "string" where
  "makeRequest = ''{'' @ quoted ''result'' @ '': '' @ quoted ''success'' @ ''}''"

definition ApiClient_placeOrder :: "string \<Rightarrow> bool \<Rightarrow> 'd \<Rightarrow> 'd \<Rightarrow> string \<Rightarrow> string" where
  "ApiClient_placeOrder instr is_buy p a order_type = makeRequest"

definition ApiClient_cancelOrder :: "string \<Rightarrow> bool" where
  "ApiClient_cancelOrder oid = True"

text \<open>
  \<^verbatim>\<open>placeOrder\<close> reads the clock twice: \<open>now1\<close> names the order, \<open>now2\<close> stamps it.
  The response of the exchange client is not looked at.
\<close>

definition placeOrder ::
  "int \<Rightarrow> int \<Rightarrow> string \<Rightarrow> Side \<Rightarrow> 'd::zero \<Rightarrow> 'd \<Rightarrow> Type \<Rightarrow> 'd OrderManager
     \<Rightarrow> string \<times> 'd OrderManager" where
  "placeOrder now1 now2 instr sd p a ty s =
     (let order_type = (if ty = LIMIT then ''limit'' else ''market'');
          api_response = ApiClient_placeOrder instr (sd = BUY) p a order_type;
          oid = ''order_'' @ to_string now1;
          order = \<lparr>order_id = oid, instrument = instr, side = sd, type = ty,
                   price = p, amount = a, filled_amount = 0, status = OPEN,
                   error_message = [], creation_timestamp = now2,
                   last_update_timestamp = now2\<rparr>
      in (oid, s\<lparr>orders := (orders s)(oid \<mapsto> order),
                 requests := requests s @ [PlaceOrderRequest instr (sd = BUY) p a order_type]\<rparr>))"

text \<open>
  \<^verbatim>\<open>cancelOrder\<close>: \<open>api\<close> is the exchange client's cancel call, \<open>now\<close> the clock
  reading taken when the order is found.
\<close>

definition cancelOrder ::
  "(string \<Rightarrow> bool) \<Rightarrow> int \<Rightarrow> string \<Rightarrow> 'd OrderManager \<Rightarrow> bool \<times> 'd OrderManager" where
  "cancelOrder api now oid s =
     (let success = api oid;
          s1 = s\<lparr>requests := requests s @ [CancelOrderRequest oid]\<rparr>
      in if success then
           (case orders s1 oid of
              Some order \<Rightarrow>
                (success, s1\<lparr>orders := (orders s1)(oid \<mapsto>
                   order\<lparr>status := CANCELLED, last_update_timestamp := now\<rparr>)\<rparr>)
            | None \<Rightarrow> (success, s1))
         else (success, s1))"

text \<open>
  \<^verbatim>\<open>getOrder\<close>: a known id yields the stored order. For an unknown id the code fills
  in the id, the status and the message of a fresh \<^verbatim>\<open>Order\<close>; \<open>fresh\<close> supplies the
  fields the code leaves unset. The result is \<open>None\<close> where \<^verbatim>\<open>at\<close> would throw.
\<close>

definition getOrder :: "'d::zero Order \<Rightarrow> 'd OrderManager \<Rightarrow> string \<Rightarrow> 'd Order option" where
  "getOrder fresh s oid =
     (if orders s oid \<noteq> None then orders s oid
      else Some (fresh\<lparr>order_id := oid, instrument := [], filled_amount := 0,
                        status := REJECTED, error_message := ''Order not found''\<rparr>))"

definition getCurrentPositions :: "'d OrderManager \<Rightarrow> (string \<rightharpoonup> 'd)" where
  "getCurrentPositions s = positions s"

text \<open>
  \<^verbatim>\<open>onOrderUpdate\<close> on the decoded message. The three fields are read first; a field
  that is missing or has the wrong kind throws, and the handler then leaves the table as
  it is. For a known id the filled amount and the update time are written before the
  status is looked at. A \<^verbatim>\<open>rejected\<close> update stores the \<^verbatim>\<open>error\<close> member when
  it is a string; when it is of another kind the read throws after the order has been
  rewritten, so the rewritten order stays.
\<close>

definition update_status :: "'d::{zero,ord} json \<Rightarrow> string \<Rightarrow> 'd \<Rightarrow> 'd Order \<Rightarrow> 'd Order" where
  "update_status data st filled order =
     (if st = ''open'' then order\<lparr>status := OPEN\<rparr>
      else if st = ''filled'' then order\<lparr>status := FILLED\<rparr>
      else if st = ''cancelled'' then order\<lparr>status := CANCELLED\<rparr>
      else if st = ''rejected'' then
        (let order' = order\<lparr>status := REJECTED\<rparr>
         in if contains data ''error'' then
              (case Option.bind (at_key data ''error'') get_string of
                 Some e \<Rightarrow> order'\<lparr>error_message := e\<rparr>
               | None \<Rightarrow> order')
            else order')
      else if 0 < filled \<and> filled < amount order then order\<lparr>status := PARTIALLY_FILLED\<rparr>
      else order)"

definition onOrderUpdate_data :: "int \<Rightarrow> 'd::{zero,ord} json \<Rightarrow> 'd OrderManager \<Rightarrow> 'd OrderManager" where
  "onOrderUpdate_data now data s =
     (case Option.bind (at_key data ''order_id'') get_string of
        None \<Rightarrow> s
      | Some oid \<Rightarrow>
     (case Option.bind (at_key data ''state'') get_string of
        None \<Rightarrow> s
      | Some st \<Rightarrow>
     (case Option.bind (at_key data ''filled_amount'') get_double of
        None \<Rightarrow> s
      | Some filled \<Rightarrow>
     (case orders s oid of
        None \<Rightarrow> s
      | Some order \<Rightarrow>
          s\<lparr>orders := (orders s)(oid \<mapsto>
               update_status data st filled
                 (order\<lparr>filled_amount := filled, last_update_timestamp := now\<rparr>))\<rparr>))))"

text \<open>
  \<^verbatim>\<open>onOrderUpdate\<close> on the raw text: \<open>parse\<close> is the codec, \<open>None\<close> for text it
  rejects; the handler catches that as well.
\<close>

definition onOrderUpdate ::
  "(string \<Rightarrow> 'd json option) \<Rightarrow> int \<Rightarrow> string \<Rightarrow> 'd::{zero,ord} OrderManager \<Rightarrow> 'd OrderManager" where
  "onOrderUpdate parse now order_data s =
     (case parse order_data of None \<Rightarrow> s | Some data \<Rightarrow> onOrderUpdate_data now data s)"

text \<open>\<^verbatim>\<open>modifyOrder\<close>: \<open>api\<close> is the exchange client's modify call.\<close>

definition ApiClient_modifyOrder :: "string \<Rightarrow> 'd \<Rightarrow> 'd \<Rightarrow> bool" where
  "ApiClient_modifyOrder oid p a = True"

definition modifyOrder ::
  "(string \<Rightarrow> 'd \<Rightarrow> 'd \<Rightarrow> bool) \<Rightarrow> int \<Rightarrow> string \<Rightarrow> 'd \<Rightarrow> 'd \<Rightarrow> 'd OrderManager
     \<Rightarrow> bool \<times> 'd OrderManager" where
  "modifyOrder api now oid new_price new_amount s =
     (let success = api oid new_price new_amount;
          s1 = s\<lparr>requests := requests s @ [ModifyOrderRequest oid new_price new_amount]\<rparr>
      in if success then
           (case orders s1 oid of
              Some order \<Rightarrow>
                (success, s1\<lparr>orders := (orders s1)(oid \<mapsto>
                   order\<lparr>price := new_price, amount := new_amount,
                         last_update_timestamp := now\<rparr>)\<rparr>)
            | None \<Rightarrow> (success, s1))
         else (success, s1))"

text \<open>
  \<^verbatim>\<open>onPositionUpdate\<close>. The table is cleared and then filled entry by entry, so an
  entry that throws leaves the entries stored before it (\<open>Caught\<close>). The entries are read
  through \<^verbatim>\<open>const\<close> references: an entry without one of the two keys fails the
  library's assertion, which no handler catches (\<open>Asserted\<close>).
\<close>

datatype 't run = Finished 't | Caught 't | Asserted

fun repopulate :: "'d json list \<Rightarrow> (string \<rightharpoonup> 'd) \<Rightarrow> (string \<rightharpoonup> 'd) run" where
  "repopulate [] tab = Finished tab"
| "repopulate (position # rest) tab =
     (case at_key_const position ''instrument_name'' of
        Throws \<Rightarrow> Caught tab
      | AssertionFails \<Rightarrow> Asserted
      | Value v \<Rightarrow>
     (case get_string v of
        None \<Rightarrow> Caught tab
      | Some instr \<Rightarrow>
     (case at_key_const position ''size'' of
        Throws \<Rightarrow> Caught tab
      | AssertionFails \<Rightarrow> Asserted
      | Value w \<Rightarrow>
     (case get_double w of
        None \<Rightarrow> Caught tab
      | Some sz \<Rightarrow> repopulate rest (tab(instr \<mapsto> sz))))))"

text \<open>The result is \<open>None\<close> when the assertion stops the process.\<close>

definition onPositionUpdate_data :: "'d json \<Rightarrow> 'd OrderManager \<Rightarrow> 'd OrderManager option" where
  "onPositionUpdate_data data s =
     (if is_array data then
        (case repopulate (elements data) Map.empty of
           Finished tab \<Rightarrow> Some (s\<lparr>positions := tab\<rparr>)
         | Caught tab \<Rightarrow> Some (s\<lparr>positions := tab\<rparr>)
         | Asserted \<Rightarrow> None)
      else Some s)"

definition onPositionUpdate ::
  "(string \<Rightarrow> 'd json option) \<Rightarrow> string \<Rightarrow> 'd OrderManager \<Rightarrow> 'd OrderManager option" where
  "onPositionUpdate parse position_data s =
     (case parse position_data of None \<Rightarrow> Some s | Some data \<Rightarrow> onPositionUpdate_data data s)"

subsection \<open>Histories of the registry\<close>

text \<open>
  A history is the list of calls made on one registry. Each call carries what the
  environment contributes to it: the clock readings it takes and, for cancel and modify,
  the answer of the exchange client.
\<close>

datatype 'd call =
    PlaceOrder int int string Side 'd 'd Type
  | CancelOrder bool int string
  | ModifyOrder bool int string 'd 'd
  | OrderUpdate int string
  | PositionUpdate string

fun readings :: "'d call \<Rightarrow> int list" where
  "readings (PlaceOrder now1 now2 instr sd p a ty) = [now1, now2]"
| "readings (CancelOrder ok now oid) = [now]"
| "readings (ModifyOrder ok now oid p a) = [now]"
| "readings (OrderUpdate now msg) = [now]"
| "readings (PositionUpdate msg) = []"

fun call_step ::
  "(string \<Rightarrow> 'd json option) \<Rightarrow> 'd::{zero,ord} call \<Rightarrow> 'd OrderManager \<Rightarrow> 'd OrderManager option" where
  "call_step parse (PlaceOrder now1 now2 instr sd p a ty) s =
     Some (snd (placeOrder now1 now2 instr sd p a ty s))"
| "call_step parse (CancelOrder ok now oid) s = Some (snd (cancelOrder (\<lambda>_. ok) now oid s))"
| "call_step parse (ModifyOrder ok now oid p a) s =
     Some (snd (modifyOrder (\<lambda>_ _ _. ok) now oid p a s))"
| "call_step parse (OrderUpdate now msg) s = Some (onOrderUpdate parse now msg s)"
| "call_step parse (PositionUpdate msg) s = onPositionUpdate parse msg s"

fun history ::
  "(string \<Rightarrow> 'd json option) \<Rightarrow> 'd::{zero,ord} call list \<Rightarrow> 'd OrderManager \<Rightarrow> 'd OrderManager option" where
  "history parse [] s = Some s"
| "history parse (c # cs) s =
     (case call_step parse c s of None \<Rightarrow> None | Some s' \<Rightarrow> history parse cs s')"

section \<open>Order book cache\<close>

text \<open>
  The fields \<^verbatim>\<open>price\<close> and \<^verbatim>\<open>size\<close> of a level and \<^verbatim>\<open>instrument\<close> of a book
  carry a suffix here, since an order has fields of the same names.
\<close>

record 'd Level =
  price_level :: 'd
  size_level :: 'd

record 'd Orderbook =
  instrument_book :: string
  bids :: "'d Level list"
  asks :: "'d Level list"
  timestamp :: int

text \<open>
  \<open>orderbook_callback\<close> tells whether a listener is registered; a call of the listener
  is an output of the operation that makes it.
\<close>

record 'd MarketDataClient =
  running :: bool
  subscriptions :: "string list"
  orderbooks :: "string \<rightharpoonup> 'd Orderbook"
  orderbook_callback :: bool

definition MarketDataClient_init :: "'d MarketDataClient" where
  "MarketDataClient_init =
     \<lparr>running = False, subscriptions = [], orderbooks = Map.empty, orderbook_callback = False\<rparr>"

definition setOrderbookCallback :: "'d MarketDataClient \<Rightarrow> 'd MarketDataClient" where
  "setOrderbookCallback s = s\<lparr>orderbook_callback := True\<rparr>"

text \<open>
  \<^verbatim>\<open>getOrderbook\<close>. The result is \<open>None\<close> where \<^verbatim>\<open>at\<close> would throw. The method is
  \<^verbatim>\<open>const\<close>; the state is returned beside the result to say so. \<open>unset\<close> is the
  timestamp of a book that was never given one.
\<close>

definition getOrderbook ::
  "int \<Rightarrow> 'd MarketDataClient \<Rightarrow> string \<Rightarrow> 'd Orderbook option \<times> 'd MarketDataClient" where
  "getOrderbook unset s instr =
     (if orderbooks s instr \<noteq> None then (orderbooks s instr, s)
      else (Some \<lparr>instrument_book = instr, bids = [], asks = [], timestamp = unset\<rparr>, s))"

text \<open>\<^verbatim>\<open>j.size()\<close>.\<close>

fun size_json :: "'d json \<Rightarrow> nat" where
  "size_json JNull = 0"
| "size_json (JArray xs) = length xs"
| "size_json (JObject kvs) = length kvs"
| "size_json _ = 1"

text \<open>
  The loop over one side of the book. An entry that is an array of at least two values
  becomes a level, and its first two values have to be numbers: otherwise the conversion
  throws (\<open>None\<close>). Any other entry is passed over.
\<close>

fun side_levels :: "'d json list \<Rightarrow> 'd Level list option" where
  "side_levels [] = Some []"
| "side_levels (entry # rest) =
     (if is_array entry \<and> 2 \<le> size_json entry then
        (case get_double (elements entry ! 0) of
           None \<Rightarrow> None
         | Some p \<Rightarrow>
        (case get_double (elements entry ! 1) of
           None \<Rightarrow> None
         | Some q \<Rightarrow>
             map_option ((#) \<lparr>price_level = p, size_level = q\<rparr>) (side_levels rest)))
      else side_levels rest)"

definition book_side :: "'d json \<Rightarrow> string \<Rightarrow> 'd Level list option" where
  "book_side orderbook_data key =
     (if contains orderbook_data key then
        (case at_key orderbook_data key of
           None \<Rightarrow> None
         | Some v \<Rightarrow> side_levels (elements v))
      else Some [])"

text \<open>The instrument of a channel name that starts with \<^verbatim>\<open>book.\<close>.\<close>

definition channel_instrument :: "string \<Rightarrow> string" where
  "channel_instrument channel =
     (let rest = drop 5 channel
      in if CHR ''.'' \<in> set rest then takeWhile (\<lambda>c. c \<noteq> CHR ''.'') rest else rest)"

text \<open>
  \<^verbatim>\<open>processMessage\<close> on the decoded message, with the clock reading \<open>now\<close>. The second
  component of the result is the book handed to the listener, if the listener is called.
  Every exception is caught and leaves the state as it was, since the book is stored only
  after both sides have been read.
\<close>

definition processMessage_data ::
  "int \<Rightarrow> 'd json \<Rightarrow> 'd MarketDataClient \<Rightarrow> 'd MarketDataClient \<times> 'd Orderbook option" where
  "processMessage_data now data s =
     (if contains data ''method'' \<and> at_key data ''method'' = Some (JString ''subscription'')
         \<and> contains data ''params''
         \<and> (case at_key data ''params'' of Some params \<Rightarrow> contains params ''channel'' | None \<Rightarrow> False)
      then
        (case Option.bind (Option.bind (at_key data ''params'') (\<lambda>params. at_key params ''channel''))
                get_string of
           None \<Rightarrow> (s, None)
         | Some channel \<Rightarrow>
             if take 5 channel = ''book.'' then
               (case Option.bind (at_key data ''params'') (\<lambda>params. at_key params ''data'') of
                  None \<Rightarrow> (s, None)
                | Some orderbook_data \<Rightarrow>
               (case book_side orderbook_data ''bids'' of
                  None \<Rightarrow> (s, None)
                | Some bs \<Rightarrow>
               (case book_side orderbook_data ''asks'' of
                  None \<Rightarrow> (s, None)
                | Some as \<Rightarrow>
                    (let instr = channel_instrument channel;
                         orderbook = \<lparr>instrument_book = instr, bids = bs, asks = as,
                                       timestamp = now\<rparr>
                     in (s\<lparr>orderbooks := (orderbooks s)(instr \<mapsto> orderbook)\<rparr>,
                         if orderbook_callback s then Some orderbook else None)))))
             else (s, None))
      else (s, None))"

definition processMessage ::
  "(string \<Rightarrow> 'd json option) \<Rightarrow> int \<Rightarrow> string \<Rightarrow> 'd MarketDataClient
     \<Rightarrow> 'd MarketDataClient \<times> 'd Orderbook option" where
  "processMessage parse now message s =
     (case parse message of None \<Rightarrow> (s, None) | Some data \<Rightarrow> processMessage_data now data s)"

section \<open>Subscription broker\<close>

text \<open>
  A connection is known to the broker by the id it reports; \<open>socket\<close> tells apart two
  connection objects that report the same id.
\<close>

datatype Connection = Connection (getId: string) (socket: nat)

text \<open>
  The connection table and the two subscription indexes. A \<^verbatim>\<open>std::set\<close> of strings
  is a finite set, visited in increasing order.
\<close>

record WebSocketServer =
  clients :: "string \<rightharpoonup> Connection"
  client_subscriptions :: "string \<rightharpoonup> string fset"
  instrument_subscribers :: "string \<rightharpoonup> string fset"

definition WebSocketServer_init :: WebSocketServer where
  "WebSocketServer_init =
     \<lparr>clients = Map.empty, client_subscriptions = Map.empty, instrument_subscribers = Map.empty\<rparr>"

text \<open>\<^verbatim>\<open>m[key]\<close> on a map of sets: the entry, or the empty set that the access creates.\<close>

definition entry :: "(string \<rightharpoonup> string fset) \<Rightarrow> string \<Rightarrow> string fset" where
  "entry m k = (case m k of Some S \<Rightarrow> S | None \<Rightarrow> {||})"

definition subscription_status :: "string \<Rightarrow> string \<Rightarrow> string" where
  "subscription_status instr st =
     ''{'' @ quoted ''type'' @ '':'' @ quoted ''subscription''
       @ '','' @ quoted ''instrument'' @ '':'' @ quoted instr
       @ '','' @ quoted ''status'' @ '':'' @ quoted st @ ''}''"

text \<open>
  Each operation returns the new state and the messages it sends, each with the
  connection it is sent to.
\<close>

definition addSubscription ::
  "Connection \<Rightarrow> string \<Rightarrow> WebSocketServer \<Rightarrow> WebSocketServer \<times> (Connection \<times> string) list" where
  "addSubscription client instr s =
     (let client_id = getId client;
          cs = (client_subscriptions s)(client_id \<mapsto> finsert instr (entry (client_subscriptions s) client_id));
          subs = (instrument_subscribers s)(instr \<mapsto> finsert client_id (entry (instrument_subscribers s) instr))
      in (s\<lparr>client_subscriptions := cs, instrument_subscribers := subs\<rparr>,
          [(client, subscription_status instr ''subscribed'')]))"

text \<open>
  Taking \<open>client_id\<close> out of the subscribers of \<open>instr\<close>; an entry that becomes empty
  is dropped. Both removals do this.
\<close>

definition erase_subscriber ::
  "string \<Rightarrow> string \<Rightarrow> (string \<rightharpoonup> string fset) \<Rightarrow> (string \<rightharpoonup> string fset)" where
  "erase_subscriber client_id instr subs =
     (case subs instr of
        None \<Rightarrow> subs
      | Some S \<Rightarrow>
          (if S |-| {|client_id|} = {||} then subs(instr := None)
           else subs(instr \<mapsto> S |-| {|client_id|})))"

definition removeSubscription ::
  "Connection \<Rightarrow> string \<Rightarrow> WebSocketServer \<Rightarrow> WebSocketServer \<times> (Connection \<times> string) list" where
  "removeSubscription client instr s =
     (let client_id = getId client;
          cs = (case client_subscriptions s client_id of
                  None \<Rightarrow> client_subscriptions s
                | Some S \<Rightarrow> (client_subscriptions s)(client_id \<mapsto> S |-| {|instr|}));
          subs = erase_subscriber client_id instr (instrument_subscribers s)
      in (s\<lparr>client_subscriptions := cs, instrument_subscribers := subs\<rparr>,
          [(client, subscription_status instr ''unsubscribed'')]))"

definition removeAllSubscriptions :: "Connection \<Rightarrow> WebSocketServer \<Rightarrow> WebSocketServer" where
  "removeAllSubscriptions client s =
     (let client_id = getId client;
          instruments = (case client_subscriptions s client_id of None \<Rightarrow> {||} | Some S \<Rightarrow> S);
          cs = (client_subscriptions s)(client_id := None);
          subs = fold (erase_subscriber client_id) (sorted_list_of_fset instruments)
                   (instrument_subscribers s)
      in s\<lparr>client_subscriptions := cs, instrument_subscribers := subs\<rparr>)"

text \<open>\<^verbatim>\<open>getSubscriptions\<close>; \<open>None\<close> where \<^verbatim>\<open>at\<close> would throw.\<close>

definition getSubscriptions :: "Connection \<Rightarrow> WebSocketServer \<Rightarrow> string fset option" where
  "getSubscriptions client s =
     (if client_subscriptions s (getId client) \<noteq> None then client_subscriptions s (getId client)
      else Some {||})"

text \<open>
  \<^verbatim>\<open>broadcastToSubscribers\<close>: the ids subscribed to the instrument, in increasing
  order; those of them that the connection table resolves; one send to each. The state
  is only read.
\<close>

definition broadcastToSubscribers ::
  "string \<Rightarrow> string \<Rightarrow> WebSocketServer \<Rightarrow> (Connection \<times> string) list" where
  "broadcastToSubscribers instr message s =
     (let client_ids = (case instrument_subscribers s instr of
                          Some S \<Rightarrow> sorted_list_of_fset S
                        | None \<Rightarrow> []);
          targets = List.map_filter (clients s) client_ids
      in map (\<lambda>client. (client, message)) targets)"

definition welcome_message :: string where
  "welcome_message = ''{'' @ quoted ''type'' @ '':'' @ quoted ''welcome'' @ '','' @ quoted ''message'' @ '':''
       @ quoted ''Welcome to Deribit Trader WebSocket Server'' @ ''}''"

definition onAccept ::
  "Connection \<Rightarrow> WebSocketServer \<Rightarrow> WebSocketServer \<times> (Connection \<times> string) list" where
  "onAccept connection s =
     (s\<lparr>clients := (clients s)(getId connection \<mapsto> connection)\<rparr>, [(connection, welcome_message)])"

definition onClose :: "Connection \<Rightarrow> WebSocketServer \<Rightarrow> WebSocketServer" where
  "onClose connection s =
     (let s1 = removeAllSubscriptions connection s
      in s1\<lparr>clients := (clients s1)(getId connection := None)\<rparr>)"

subsection \<open>Histories of the subscription indexes\<close>

datatype subscription_call =
    AddSubscription Connection string
  | RemoveSubscription Connection string
  | RemoveAllSubscriptions Connection

fun subscription_step :: "subscription_call \<Rightarrow> WebSocketServer \<Rightarrow> WebSocketServer" where
  "subscription_step (AddSubscription client instr) s = fst (addSubscription client instr s)"
| "subscription_step (RemoveSubscription client instr) s = fst (removeSubscription client instr s)"
| "subscription_step (RemoveAllSubscriptions client) s = removeAllSubscriptions client s"

definition subscription_history :: "subscription_call list \<Rightarrow> WebSocketServer \<Rightarrow> WebSocketServer" where
  "subscription_history calls s = fold subscription_step calls s"

section \<open>Notions used in the statements\<close>

text \<open>The two subscription indexes hold the same pairs.\<close>

definition agree :: "WebSocketServer \<Rightarrow> bool" where
  "agree s =
     (\<forall>cid i. (i |\<in>| entry (client_subscriptions s) cid) = (cid |\<in>| entry (instrument_subscribers s) i))"

text \<open>No stored order was created after the clock reading \<open>t\<close>.\<close>

definition stamped_by :: "int \<Rightarrow> 'd OrderManager \<Rightarrow> bool" where
  "stamped_by t s = (\<forall>oid order. orders s oid = Some order \<longrightarrow> creation_timestamp order \<le> t)"

text \<open>
  The instrument and size an entry of a position update carries, when it carries both
  in the right kind.
\<close>

fun position_pair :: "'d json \<Rightarrow> (string \<times> 'd) option" where
  "position_pair (JObject kvs) =
     (case (map_of kvs ''instrument_name'', map_of kvs ''size'') of
        (Some (JString instr), Some (JNumber sz)) \<Rightarrow> Some (instr, sz)
      | _ \<Rightarrow> None)"
| "position_pair _ = None"

text \<open>The wire form of a level, \<^verbatim>\<open>[price, size]\<close>.\<close>

definition level_json :: "'d Level \<Rightarrow> 'd json" where
  "level_json l = JArray [JNumber (price_level l), JNumber (size_level l)]"

text \<open>A book without its ingestion time.\<close>

definition untimed :: "'d Orderbook \<Rightarrow> string \<times> 'd Level list \<times> 'd Level list" where
  "untimed b = (instrument_book b, bids b, asks b)"

text \<open>The cached books without their ingestion times.\<close>

definition cache_untimed ::
  "'d MarketDataClient \<Rightarrow> (string \<rightharpoonup> string \<times> 'd Level list \<times> 'd Level list)" where
  "cache_untimed s = map_option untimed \<circ> orderbooks s"

section \<open>Example values\<close>

text \<open>A registry holding one open buy order for 10 units, named \<^verbatim>\<open>order_1\<close>.\<close>

definition example_registry :: "real OrderManager" where
  "example_registry = snd (placeOrder 1 2 ''BTC-PERPETUAL'' BUY 50000 10 LIMIT OrderManager_init)"

text \<open>Order updates, as text and decoded: a fill, an update that names no state, and an
  update whose state is none of the four the registry maps.\<close>

definition wire_filled :: string where
  "wire_filled = ''{'' @ quoted ''order_id'' @ '':'' @ quoted ''order_1'' @ '','' @ quoted ''state''
     @ '':'' @ quoted ''filled'' @ '','' @ quoted ''filled_amount'' @ '':10}''"

definition data_filled :: "real json" where
  "data_filled = JObject [(''order_id'', JString ''order_1''), (''state'', JString ''filled''),
     (''filled_amount'', JNumber 10)]"

definition wire_no_state :: string where
  "wire_no_state = ''{'' @ quoted ''order_id'' @ '':'' @ quoted ''order_1'' @ '','' 
     @ quoted ''filled_amount'' @ '':5}''"

definition data_no_state :: "real json" where
  "data_no_state = JObject [(''order_id'', JString ''order_1''), (''filled_amount'', JNumber 5)]"

definition wire_untriggered :: string where
  "wire_untriggered = ''{'' @ quoted ''order_id'' @ '':'' @ quoted ''order_1'' @ '','' @ quoted ''state''
     @ '':'' @ quoted ''untriggered'' @ '','' @ quoted ''filled_amount'' @ '':4}''"

definition data_untriggered :: "real json" where
  "data_untriggered = JObject [(''order_id'', JString ''order_1''), (''state'', JString ''untriggered''),
     (''filled_amount'', JNumber 4)]"

definition wire_unknown :: string where
  "wire_unknown = ''{'' @ quoted ''order_id'' @ '':'' @ quoted ''order_9'' @ '','' @ quoted ''state''
     @ '':'' @ quoted ''filled'' @ '','' @ quoted ''filled_amount'' @ '':10}''"

definition data_unknown :: "real json" where
  "data_unknown = JObject [(''order_id'', JString ''order_9''), (''state'', JString ''filled''),
     (''filled_amount'', JNumber 10)]"

text \<open>A position update with two entries.\<close>

definition wire_positions :: string where
  "wire_positions = ''[{'' @ quoted ''instrument_name'' @ '':'' @ quoted ''BTC-PERPETUAL'' @ '',''
     @ quoted ''size'' @ '':0.5},{'' @ quoted ''instrument_name'' @ '':'' @ quoted ''ETH-PERPETUAL''
     @ '','' @ quoted ''size'' @ '':-1.0}]''"

definition data_positions :: "real json" where
  "data_positions = JArray
     [JObject [(''instrument_name'', JString ''BTC-PERPETUAL''), (''size'', JNumber 0.5)],
      JObject [(''instrument_name'', JString ''ETH-PERPETUAL''), (''size'', JNumber (- 1))]]"

text \<open>A book update for \<^verbatim>\<open>BTC-PERPETUAL\<close> with one bid and one ask.\<close>

definition wire_book :: string where
  "wire_book = ''{'' @ quoted ''method'' @ '':'' @ quoted ''subscription'' @ '','' @ quoted ''params''
     @ '':{'' @ quoted ''channel'' @ '':'' @ quoted ''book.BTC-PERPETUAL.none.10.100ms'' @ '',''
     @ quoted ''data'' @ '':{'' @ quoted ''bids'' @ '':[[50000,2]],'' @ quoted ''asks''
     @ '':[[50001,3]]}}}''"

definition data_book :: "real json" where
  "data_book = JObject
     [(''method'', JString ''subscription''),
      (''params'', JObject
         [(''channel'', JString ''book.BTC-PERPETUAL.none.10.100ms''),
          (''data'', JObject
             [(''bids'', JArray [JArray [JNumber 50000, JNumber 2]]),
              (''asks'', JArray [JArray [JNumber 50001, JNumber 3]])])])]"

text \<open>A codec that knows the texts above and rejects every other text.\<close>

definition example_codec :: "string \<Rightarrow> real json option" where
  "example_codec t =
     (if t = wire_filled then Some data_filled
      else if t = wire_no_state then Some data_no_state
      else if t = wire_untriggered then Some data_untriggered
      else if t = wire_unknown then Some data_unknown
      else if t = wire_positions then Some data_positions
      else if t = wire_book then Some data_book
      else None)"

text \<open>Two connections; only the first is in the connection table, both are subscribed.\<close>

definition alice :: Connection where
  "alice = Connection ''00000000000000a1'' 1"

definition bob :: Connection where
  "bob = Connection ''00000000000000b2'' 2"

definition example_server :: WebSocketServer where
  "example_server =
     fst (addSubscription bob ''BTC-PERPETUAL''
       (fst (addSubscription alice ''BTC-PERPETUAL'' (fst (onAccept alice WebSocketServer_init)))))"

text \<open>A history: an order is placed and then reported filled.\<close>

definition example_calls :: "real call list" where
  "example_calls = [PlaceOrder 1 2 ''BTC-PERPETUAL'' BUY 50000 10 LIMIT, OrderUpdate 3 wire_filled]"

text \<open>Values for the fields that \<^verbatim>\<open>getOrder\<close> leaves unset.\<close>

definition blank_order :: "real Order" where
  "blank_order = \<lparr>order_id = [], instrument = [], side = BUY, type = LIMIT, price = 0, amount = 0,
     filled_amount = 0, status = PENDING, error_message = [], creation_timestamp = 0,
     last_update_timestamp = 0\<rparr>"

text \<open>A registry that holds one position.\<close>

definition example_positions :: "real OrderManager" where
  "example_positions = OrderManager_init\<lparr>positions := [''SOL-PERPETUAL'' \<mapsto> 3]\<rparr>"

text \<open>Both connections subscribe to one instrument, and the first unsubscribes again.\<close>

definition example_subscription_calls :: "subscription_call list" where
  "example_subscription_calls =
     [AddSubscription alice ''BTC-PERPETUAL'', AddSubscription bob ''BTC-PERPETUAL'',
      RemoveSubscription alice ''BTC-PERPETUAL'']"

text \<open>A history whose only order is created at the clock reading 11.\<close>

definition stepback_calls :: "real call list" where
  "stepback_calls = [PlaceOrder 10 11 ''BTC-PERPETUAL'' BUY 50000 10 LIMIT]"

section \<open>Proofs: order registry\<close>

lemma to_string_1: "to_string 1 = ''1''"
  by code_simp

lemma to_string_10: "to_string 10 = ''10''"
  by code_simp

lemma example_registry_order:
  "orders example_registry ''order_1'' =
     Some \<lparr>order_id = ''order_1'', instrument = ''BTC-PERPETUAL'', side = BUY, type = LIMIT,
            price = 50000, amount = 10, filled_amount = 0, status = OPEN, error_message = [],
            creation_timestamp = 2, last_update_timestamp = 2\<rparr>"
  by (simp add: example_registry_def placeOrder_def Let_def to_string_1)

lemma example_codec_values:
  "example_codec wire_filled = Some data_filled"
  "example_codec wire_no_state = Some data_no_state"
  "example_codec wire_untriggered = Some data_untriggered"
  "example_codec wire_unknown = Some data_unknown"
  "example_codec wire_positions = Some data_positions"
  "example_codec wire_book = Some data_book"
  by (simp_all add: example_codec_def wire_filled_def wire_no_state_def wire_untriggered_def
      wire_unknown_def wire_positions_def wire_book_def quoted_def)

text \<open>
  Claim C5. Whatever the instrument, side, price, amount and type, \<open>placeOrder\<close> hands the
  placement to the exchange client, names the order after the first clock reading, and
  returns that name; looking the name up at once yields the new order, with status
  \<open>OPEN\<close>, the requested price and amount and filled amount \<open>0\<close>. No other order changes.
\<close>

theorem placeOrder_retrievable:
  "fst (placeOrder now1 now2 instr sd p a ty s) = ''order_'' @ to_string now1 \<and>
   requests (snd (placeOrder now1 now2 instr sd p a ty s)) =
     requests s @ [PlaceOrderRequest instr (sd = BUY) p a (if ty = LIMIT then ''limit'' else ''market'')] \<and>
   getOrder fresh (snd (placeOrder now1 now2 instr sd p a ty s)) (fst (placeOrder now1 now2 instr sd p a ty s)) =
     Some \<lparr>order_id = fst (placeOrder now1 now2 instr sd p a ty s), instrument = instr, side = sd,
            type = ty, price = p, amount = a, filled_amount = 0, status = OPEN,
            error_message = [], creation_timestamp = now2, last_update_timestamp = now2\<rparr> \<and>
   (\<forall>other. other \<noteq> fst (placeOrder now1 now2 instr sd p a ty s) \<longrightarrow>
      orders (snd (placeOrder now1 now2 instr sd p a ty s)) other = orders s other)"
  by (simp add: placeOrder_def getOrder_def Let_def)

theorem placeOrder_retrievable_witness:
  "fst (placeOrder 1 2 ''BTC-PERPETUAL'' BUY (50000::real) 0.1 LIMIT OrderManager_init) = ''order_1'' \<and>
   map_option (\<lambda>order. (status order, price order, amount order, filled_amount order))
     (getOrder blank_order
        (snd (placeOrder 1 2 ''BTC-PERPETUAL'' BUY (50000::real) 0.1 LIMIT OrderManager_init))
        (fst (placeOrder 1 2 ''BTC-PERPETUAL'' BUY (50000::real) 0.1 LIMIT OrderManager_init)))
     = Some (OPEN, 50000, 0.1, 0) \<and>
   orders (snd (placeOrder 1 2 ''BTC-PERPETUAL'' BUY (50000::real) 0.1 LIMIT OrderManager_init))
     ''order_7'' = None"
proof -
  note t = placeOrder_retrievable
      [of 1 2 "''BTC-PERPETUAL''" BUY "50000::real" "0.1" LIMIT OrderManager_init blank_order]
  have a: "fst (placeOrder 1 2 ''BTC-PERPETUAL'' BUY (50000::real) 0.1 LIMIT OrderManager_init) = ''order_1''"
    using t [THEN conjunct1] by (simp add: to_string_1)
  have c: "orders (snd (placeOrder 1 2 ''BTC-PERPETUAL'' BUY (50000::real) 0.1 LIMIT OrderManager_init))
     ''order_7'' = None"
    using t [THEN conjunct2, THEN conjunct2, THEN conjunct2] a by (simp add: OrderManager_init_def)
  show ?thesis
    using a c t [THEN conjunct2, THEN conjunct2, THEN conjunct1] by simp
qed

lemma update_status_frame:
  "creation_timestamp (update_status data st f order) = creation_timestamp order"
  "filled_amount (update_status data st f order) = filled_amount order"
  by (simp_all add: update_status_def Let_def split: option.splits)

lemma onPositionUpdate_orders:
  "onPositionUpdate parse msg s = Some s' \<Longrightarrow> orders s' = orders s"
  by (auto simp: onPositionUpdate_def onPositionUpdate_data_def
      split: option.splits if_splits run.splits)

lemma onOrderUpdate_stamped: "stamped_by t s \<Longrightarrow> stamped_by t (onOrderUpdate parse now msg s)"
  by (auto simp: stamped_by_def onOrderUpdate_def onOrderUpdate_data_def update_status_frame
      split: option.splits if_splits)

lemma call_step_stamped:
  assumes "call_step parse c s = Some s'" "\<forall>r\<in>set (readings c). r \<le> t" "stamped_by t s"
  shows "stamped_by t s'"
proof (cases c)
  case (PlaceOrder now1 now2 instr sd p a ty)
  with assms show ?thesis
    by (auto simp: stamped_by_def placeOrder_def Let_def split: if_splits)
next
  case (CancelOrder ok now oid)
  with assms show ?thesis
    by (auto simp: stamped_by_def cancelOrder_def Let_def split: if_splits option.splits)
next
  case (ModifyOrder ok now oid p a)
  with assms show ?thesis
    by (auto simp: stamped_by_def modifyOrder_def Let_def split: if_splits option.splits)
next
  case (OrderUpdate now msg)
  with assms show ?thesis using onOrderUpdate_stamped by auto
next
  case (PositionUpdate msg)
  with assms show ?thesis
    using onPositionUpdate_orders [of parse msg s s'] by (simp add: stamped_by_def)
qed

lemma history_stamped:
  "history parse cs s = Some s' \<Longrightarrow> \<forall>c\<in>set cs. \<forall>r\<in>set (readings c). r \<le> t
     \<Longrightarrow> stamped_by t s \<Longrightarrow> stamped_by t s'"
proof (induction cs arbitrary: s)
  case Nil
  then show ?case by simp
next
  case (Cons c cs)
  then obtain s1 where s1: "call_step parse c s = Some s1" "history parse cs s1 = Some s'"
    by (auto split: option.splits)
  have "stamped_by t s1" using call_step_stamped [OF s1(1)] Cons.prems by simp
  then show ?case using Cons.IH [OF s1(2)] Cons.prems by simp
qed

lemma init_stamped: "stamped_by t OrderManager_init"
  by (simp add: stamped_by_def OrderManager_init_def)

lemma cancel_step:
  "api oid \<Longrightarrow> orders s oid = Some order \<Longrightarrow>
   cancelOrder api now oid s =
     (True, s\<lparr>requests := requests s @ [CancelOrderRequest oid],
               orders := (orders s)(oid \<mapsto> order\<lparr>status := CANCELLED, last_update_timestamp := now\<rparr>)\<rparr>)"
  by (simp add: cancelOrder_def Let_def)

text \<open>
  Claim C3, as the code has it. For an order the registry holds and a cancel whose
  exchange call succeeds, \<open>cancelOrder\<close> reports success and rewrites that order, and
  only that order: its status becomes \<open>CANCELLED\<close> whatever it was, its update time
  becomes the clock reading taken by the cancel, and nothing else of it changes. When
  the registry was reached by a history of calls none of whose clock readings is later
  than that of the cancel, the new update time is not before the creation time.
\<close>

theorem cancelOrder_cancels:
  assumes known: "orders s oid = Some order"
    and ok: "api oid"
  shows "fst (cancelOrder api now oid s) = True \<and>
         orders (snd (cancelOrder api now oid s)) =
           (orders s)(oid \<mapsto> order\<lparr>status := CANCELLED, last_update_timestamp := now\<rparr>) \<and>
         (history parse cs OrderManager_init = Some s \<and>
          (\<forall>c\<in>set cs. \<forall>r\<in>set (readings c). r \<le> now) \<longrightarrow>
            creation_timestamp order \<le> now)"
proof -
  have "creation_timestamp order \<le> now"
    if reach: "history parse cs OrderManager_init = Some s"
      and clock: "\<forall>c\<in>set cs. \<forall>r\<in>set (readings c). r \<le> now"
  proof -
    have "stamped_by now s" using history_stamped [OF reach clock init_stamped] .
    then show ?thesis using known by (simp add: stamped_by_def)
  qed
  then show ?thesis using cancel_step [of api oid s order now] ok known by simp
qed

lemma example_history:
  "history example_codec example_calls OrderManager_init =
     Some (example_registry\<lparr>orders := (orders example_registry)(''order_1'' \<mapsto>
       \<lparr>order_id = ''order_1'', instrument = ''BTC-PERPETUAL'', side = BUY, type = LIMIT,
         price = 50000, amount = 10, filled_amount = 10, status = FILLED, error_message = [],
         creation_timestamp = 2, last_update_timestamp = 3\<rparr>)\<rparr>)"
  by (simp add: example_calls_def example_registry_def [symmetric] onOrderUpdate_def
      example_codec_values data_filled_def onOrderUpdate_data_def example_registry_order
      update_status_def)

theorem cancelOrder_cancels_witness:
  "map_option status (orders (the (history example_codec example_calls OrderManager_init)) ''order_1'')
     = Some FILLED \<and>
   fst (cancelOrder ApiClient_cancelOrder 4 ''order_1''
          (the (history example_codec example_calls OrderManager_init))) \<and>
   map_option (\<lambda>order. (status order, creation_timestamp order, last_update_timestamp order, filled_amount order))
     (orders (snd (cancelOrder ApiClient_cancelOrder 4 ''order_1''
          (the (history example_codec example_calls OrderManager_init)))) ''order_1'')
     = Some (CANCELLED, 2, 4, 10) \<and>
   (\<exists>order. orders (the (history example_codec example_calls OrderManager_init)) ''order_1'' = Some order
      \<and> creation_timestamp order \<le> 4)"
proof -
  let ?s = "the (history example_codec example_calls OrderManager_init)"
  let ?order = "\<lparr>order_id = ''order_1'', instrument = ''BTC-PERPETUAL'', side = BUY, type = LIMIT,
         price = 50000::real, amount = 10, filled_amount = 10, status = FILLED, error_message = [],
         creation_timestamp = 2, last_update_timestamp = 3\<rparr>"
  have reach: "history example_codec example_calls OrderManager_init = Some ?s"
    by (simp add: example_history)
  have clock: "\<forall>c\<in>set example_calls. \<forall>r\<in>set (readings c). r \<le> 4"
    by (simp add: example_calls_def)
  have known: "orders ?s ''order_1'' = Some ?order"
    by (simp add: example_history)
  have ok: "ApiClient_cancelOrder ''order_1''"
    by (simp add: ApiClient_cancelOrder_def)
  note c = cancelOrder_cancels
        [where parse = example_codec and cs = example_calls and s = ?s and now = 4
           and oid = "''order_1''" and order = ?order and api = ApiClient_cancelOrder,
         OF known ok]
  have late: "creation_timestamp ?order \<le> 4"
    using c [THEN conjunct2, THEN conjunct2] reach clock by blast
  have a: "fst (cancelOrder ApiClient_cancelOrder 4 ''order_1'' ?s)"
    using c [THEN conjunct1] by simp
  have b: "map_option (\<lambda>order. (status order, creation_timestamp order, last_update_timestamp order, filled_amount order))
     (orders (snd (cancelOrder ApiClient_cancelOrder 4 ''order_1'' ?s)) ''order_1'')
     = Some (CANCELLED, 2, 4, 10)"
    using c [THEN conjunct2, THEN conjunct1] by simp
  have d: "\<exists>order. orders ?s ''order_1'' = Some order \<and> creation_timestamp order \<le> 4"
    using known late by blast
  have e: "map_option status (orders ?s ''order_1'') = Some FILLED"
    using known by simp
  show ?thesis using a b d e by blast
qed

lemma stepback_history:
  "history example_codec stepback_calls OrderManager_init =
     Some (OrderManager_init\<lparr>orders := [''order_10'' \<mapsto>
       \<lparr>order_id = ''order_10'', instrument = ''BTC-PERPETUAL'', side = BUY, type = LIMIT,
         price = 50000, amount = 10, filled_amount = 0, status = OPEN, error_message = [],
         creation_timestamp = 11, last_update_timestamp = 11\<rparr>],
       requests := [PlaceOrderRequest ''BTC-PERPETUAL'' True 50000 10 ''limit'']\<rparr>)"
  by (simp add: stepback_calls_def placeOrder_def Let_def to_string_10 OrderManager_init_def)

text \<open>
  The claim C3 as it was stated fails when the clock is set back between the two
  readings: an order created at the reading 11 and cancelled with success at the
  reading 5 is \<open>CANCELLED\<close> with an update time before its creation time.
\<close>

theorem cancelOrder_clock_counterexample:
  "history example_codec stepback_calls OrderManager_init \<noteq> None \<and>
   map_option status (orders (the (history example_codec stepback_calls OrderManager_init)) ''order_10'')
     = Some OPEN \<and>
   ApiClient_cancelOrder ''order_10'' \<and>
   fst (cancelOrder ApiClient_cancelOrder 5 ''order_10''
          (the (history example_codec stepback_calls OrderManager_init))) \<and>
   map_option status
     (orders (snd (cancelOrder ApiClient_cancelOrder 5 ''order_10''
          (the (history example_codec stepback_calls OrderManager_init)))) ''order_10'')
     = Some CANCELLED \<and>
   map_option creation_timestamp
     (orders (snd (cancelOrder ApiClient_cancelOrder 5 ''order_10''
          (the (history example_codec stepback_calls OrderManager_init)))) ''order_10'')
     = Some 11 \<and>
   map_option last_update_timestamp
     (orders (snd (cancelOrder ApiClient_cancelOrder 5 ''order_10''
          (the (history example_codec stepback_calls OrderManager_init)))) ''order_10'')
     = Some 5 \<and>
   (5::int) < 11"
  by (simp add: stepback_history cancelOrder_def ApiClient_cancelOrder_def Let_def)

lemma onOrderUpdate_data_known:
  assumes "map_of kvs ''order_id'' = Some (JString oid)"
    and "map_of kvs ''state'' = Some (JString st)"
    and "map_of kvs ''filled_amount'' = Some (JNumber f)"
    and "orders s oid = Some order"
  shows "onOrderUpdate_data now (JObject kvs) s =
           s\<lparr>orders := (orders s)(oid \<mapsto> update_status (JObject kvs) st f
                (order\<lparr>filled_amount := f, last_update_timestamp := now\<rparr>))\<rparr>"
  using assms by (simp add: onOrderUpdate_data_def)

lemma onOrderUpdate_data_unknown:
  assumes "map_of kvs ''order_id'' = Some (JString oid)" and "orders s oid = None"
  shows "onOrderUpdate_data now (JObject kvs) s = s"
  using assms by (simp add: onOrderUpdate_data_def split: option.splits)

lemma onOrderUpdate_data_no_state:
  assumes "map_of kvs ''state'' = None"
  shows "onOrderUpdate_data now (JObject kvs) s = s"
  using assms by (simp add: onOrderUpdate_data_def split: option.splits)

text \<open>
  Claim C9. An update that decodes to an object with a string id of a known order, a
  numeric filled amount and a state string that is none of \<^verbatim>\<open>open\<close>, \<^verbatim>\<open>filled\<close>,
  \<^verbatim>\<open>cancelled\<close>, \<^verbatim>\<open>rejected\<close> rewrites that order and nothing else: the filled
  amount becomes the supplied one, the update time becomes the clock reading, and the
  status becomes \<open>PARTIALLY_FILLED\<close> exactly when the filled amount lies strictly between
  \<open>0\<close> and the requested amount, staying as it was otherwise. Every other field of the
  order keeps its value.
\<close>

theorem onOrderUpdate_unrecognised_state:
  assumes "parse order_data = Some (JObject kvs)"
    and "map_of kvs ''order_id'' = Some (JString oid)"
    and "map_of kvs ''state'' = Some (JString st)"
    and "map_of kvs ''filled_amount'' = Some (JNumber f)"
    and "st \<notin> {''open'', ''filled'', ''cancelled'', ''rejected''}"
    and "orders s oid = Some order"
  shows "onOrderUpdate parse now order_data s =
           s\<lparr>orders := (orders s)(oid \<mapsto>
                order\<lparr>filled_amount := f, last_update_timestamp := now,
                      status := (if 0 < f \<and> f < amount order then PARTIALLY_FILLED
                                 else status order)\<rparr>)\<rparr>"
proof -
  have "update_status (JObject kvs) st f (order\<lparr>filled_amount := f, last_update_timestamp := now\<rparr>)
          = order\<lparr>filled_amount := f, last_update_timestamp := now,
                  status := (if 0 < f \<and> f < amount order then PARTIALLY_FILLED else status order)\<rparr>"
    using assms(5) by (simp add: update_status_def)
  then show ?thesis
    using assms(1) onOrderUpdate_data_known [OF assms(2,3,4,6)] by (simp add: onOrderUpdate_def)
qed

theorem onOrderUpdate_unrecognised_state_witness:
  "map_option (\<lambda>order. (status order, filled_amount order, last_update_timestamp order))
     (orders example_registry ''order_1'') = Some (OPEN, 0, 2) \<and>
   orders (onOrderUpdate example_codec 3 wire_untriggered example_registry) ''order_1'' =
     Some \<lparr>order_id = ''order_1'', instrument = ''BTC-PERPETUAL'', side = BUY, type = LIMIT,
            price = 50000, amount = 10, filled_amount = 4, status = PARTIALLY_FILLED,
            error_message = [], creation_timestamp = 2, last_update_timestamp = 3\<rparr>"
proof -
  let ?kvs = "[(''order_id'', JString ''order_1''), (''state'', JString ''untriggered''),
     (''filled_amount'', JNumber (4::real))]"
  have 1: "example_codec wire_untriggered = Some (JObject ?kvs)"
    by (simp add: example_codec_values data_untriggered_def)
  have 2: "map_of ?kvs ''order_id'' = Some (JString ''order_1'')" by simp
  have 3: "map_of ?kvs ''state'' = Some (JString ''untriggered'')" by simp
  have 4: "map_of ?kvs ''filled_amount'' = Some (JNumber 4)" by simp
  have 5: "''untriggered'' \<notin> {''open'', ''filled'', ''cancelled'', ''rejected''}" by simp
  show ?thesis
    using onOrderUpdate_unrecognised_state
        [where parse = example_codec and order_data = wire_untriggered and kvs = ?kvs
           and oid = "''order_1''" and st = "''untriggered''" and f = 4 and s = example_registry
           and now = 3, OF 1 2 3 4 5 example_registry_order]
    by (simp add: example_registry_order)
qed


text \<open>
  Claim C2, as the code has it. Take an update that decodes to an object with a string
  id. When no order has that id, the registry stays exactly as it was. When the update
  names no state, the registry also stays as it was, whatever the filled amount. When
  the id is known and the update has a string state and a numeric filled amount, the
  order takes the filled amount, and its status becomes \<open>OPEN\<close>, \<open>FILLED\<close>, \<open>CANCELLED\<close> or
  \<open>REJECTED\<close> for the states \<^verbatim>\<open>open\<close>, \<^verbatim>\<open>filled\<close>, \<^verbatim>\<open>cancelled\<close>, \<^verbatim>\<open>rejected\<close>
  (a rejected update also stores its \<^verbatim>\<open>error\<close> text when it has one), and
  \<open>PARTIALLY_FILLED\<close> for any other state when the filled amount lies strictly between
  \<open>0\<close> and the requested amount.
\<close>

theorem onOrderUpdate_status_mapping:
  assumes "parse order_data = Some (JObject kvs)"
    and "map_of kvs ''order_id'' = Some (JString oid)"
  shows "(orders s oid = None \<longrightarrow> onOrderUpdate parse now order_data s = s) \<and>
         (map_of kvs ''state'' = None \<longrightarrow> onOrderUpdate parse now order_data s = s) \<and>
         (\<forall>order st f.
            orders s oid = Some order \<and> map_of kvs ''state'' = Some (JString st)
              \<and> map_of kvs ''filled_amount'' = Some (JNumber f) \<longrightarrow>
            (\<exists>order'. orders (onOrderUpdate parse now order_data s) oid = Some order' \<and>
               filled_amount order' = f \<and>
               (st = ''open'' \<longrightarrow> status order' = OPEN) \<and>
               (st = ''filled'' \<longrightarrow> status order' = FILLED) \<and>
               (st = ''cancelled'' \<longrightarrow> status order' = CANCELLED) \<and>
               (st = ''rejected'' \<longrightarrow> status order' = REJECTED \<and>
                  (\<forall>e. map_of kvs ''error'' = Some (JString e) \<longrightarrow> error_message order' = e)) \<and>
               (st \<notin> {''open'', ''filled'', ''cancelled'', ''rejected''} \<and> 0 < f \<and> f < amount order
                  \<longrightarrow> status order' = PARTIALLY_FILLED)))"
proof (intro conjI impI allI)
  assume "orders s oid = None"
  then show "onOrderUpdate parse now order_data s = s"
    using assms onOrderUpdate_data_unknown [of kvs oid s now] by (simp add: onOrderUpdate_def)
next
  assume "map_of kvs ''state'' = None"
  then show "onOrderUpdate parse now order_data s = s"
    using assms(1) onOrderUpdate_data_no_state [of kvs now s] by (simp add: onOrderUpdate_def)
next
  fix order st f
  assume h: "orders s oid = Some order \<and> map_of kvs ''state'' = Some (JString st)
       \<and> map_of kvs ''filled_amount'' = Some (JNumber f)"
  let ?o = "update_status (JObject kvs) st f (order\<lparr>filled_amount := f, last_update_timestamp := now\<rparr>)"
  have eq: "orders (onOrderUpdate parse now order_data s) oid = Some ?o"
    using assms h onOrderUpdate_data_known [of kvs oid st f s order now]
    by (simp add: onOrderUpdate_def)
  have f0: "filled_amount ?o = f" by (simp add: update_status_def Let_def split: option.splits)
  have f1: "st = ''open'' \<longrightarrow> status ?o = OPEN" by (simp add: update_status_def)
  have f2: "st = ''filled'' \<longrightarrow> status ?o = FILLED" by (simp add: update_status_def)
  have f3: "st = ''cancelled'' \<longrightarrow> status ?o = CANCELLED" by (simp add: update_status_def)
  have f4: "st = ''rejected'' \<longrightarrow> status ?o = REJECTED \<and>
                  (\<forall>e. map_of kvs ''error'' = Some (JString e) \<longrightarrow> error_message ?o = e)"
    by (simp add: update_status_def Let_def split: option.splits)
  have f5: "st \<notin> {''open'', ''filled'', ''cancelled'', ''rejected''} \<and> 0 < f \<and> f < amount order
                  \<longrightarrow> status ?o = PARTIALLY_FILLED"
    by (simp add: update_status_def)
  show "\<exists>order'. orders (onOrderUpdate parse now order_data s) oid = Some order' \<and>
               filled_amount order' = f \<and>
               (st = ''open'' \<longrightarrow> status order' = OPEN) \<and>
               (st = ''filled'' \<longrightarrow> status order' = FILLED) \<and>
               (st = ''cancelled'' \<longrightarrow> status order' = CANCELLED) \<and>
               (st = ''rejected'' \<longrightarrow> status order' = REJECTED \<and>
                  (\<forall>e. map_of kvs ''error'' = Some (JString e) \<longrightarrow> error_message order' = e)) \<and>
               (st \<notin> {''open'', ''filled'', ''cancelled'', ''rejected''} \<and> 0 < f \<and> f < amount order
                  \<longrightarrow> status order' = PARTIALLY_FILLED)"
    apply (rule exI [of _ ?o])
    apply (rule conjI, rule eq)
    apply (rule conjI, rule f0)
    apply (rule conjI, rule f1)
    apply (rule conjI, rule f2)
    apply (rule conjI, rule f3)
    apply (rule conjI, rule f4)
    apply (rule f5)
    done
qed

theorem onOrderUpdate_status_mapping_witness:
  "map_option (\<lambda>order. (status order, filled_amount order))
     (orders (onOrderUpdate example_codec 3 wire_filled example_registry) ''order_1'')
     = Some (FILLED, 10) \<and>
   map_option status (orders (onOrderUpdate example_codec 3 wire_untriggered example_registry) ''order_1'')
     = Some PARTIALLY_FILLED \<and>
   onOrderUpdate example_codec 3 wire_unknown example_registry = example_registry \<and>
   onOrderUpdate example_codec 3 wire_no_state example_registry = example_registry"
proof -
  let ?filled = "[(''order_id'', JString ''order_1''), (''state'', JString ''filled''),
     (''filled_amount'', JNumber (10::real))]"
  let ?untriggered = "[(''order_id'', JString ''order_1''), (''state'', JString ''untriggered''),
     (''filled_amount'', JNumber (4::real))]"
  let ?unknown = "[(''order_id'', JString ''order_9''), (''state'', JString ''filled''),
     (''filled_amount'', JNumber (10::real))]"
  let ?no_state = "[(''order_id'', JString ''order_1''), (''filled_amount'', JNumber (5::real))]"
  have none: "orders example_registry ''order_9'' = None"
    by (simp add: example_registry_def placeOrder_def Let_def to_string_1 OrderManager_init_def)
  have a: "map_option (\<lambda>order. (status order, filled_amount order))
     (orders (onOrderUpdate example_codec 3 wire_filled example_registry) ''order_1'')
     = Some (FILLED, 10)"
    using onOrderUpdate_status_mapping
        [where parse = example_codec and order_data = wire_filled and kvs = ?filled
           and oid = "''order_1''" and s = example_registry and now = 3]
    by (auto simp: example_codec_values data_filled_def example_registry_order)
  have b: "map_option status
     (orders (onOrderUpdate example_codec 3 wire_untriggered example_registry) ''order_1'')
     = Some PARTIALLY_FILLED"
    using onOrderUpdate_status_mapping
        [where parse = example_codec and order_data = wire_untriggered and kvs = ?untriggered
           and oid = "''order_1''" and s = example_registry and now = 3]
    by (auto simp: example_codec_values data_untriggered_def example_registry_order)
  have c: "onOrderUpdate example_codec 3 wire_unknown example_registry = example_registry"
    using onOrderUpdate_status_mapping
        [where parse = example_codec and order_data = wire_unknown and kvs = ?unknown
           and oid = "''order_9''" and s = example_registry and now = 3] none
    by (simp add: example_codec_values data_unknown_def)
  have d: "onOrderUpdate example_codec 3 wire_no_state example_registry = example_registry"
    using onOrderUpdate_status_mapping
        [where parse = example_codec and order_data = wire_no_state and kvs = ?no_state
           and oid = "''order_1''" and s = example_registry and now = 3]
    by (simp add: example_codec_values data_no_state_def)
  show ?thesis using a b c d by simp
qed

text \<open>
  The claim C2 as it was stated fails where the update names no state: the order is
  known, the filled amount 5 lies strictly between 0 and the requested 10, and the
  order is still \<open>OPEN\<close> afterwards, since the handler drops the update.
\<close>

theorem onOrderUpdate_absent_state_counterexample:
  "example_codec wire_no_state = Some data_no_state \<and>
   contains data_no_state ''state'' = False \<and>
   map_option status (orders example_registry ''order_1'') = Some OPEN \<and>
   map_option amount (orders example_registry ''order_1'') = Some 10 \<and>
   (0::real) < 5 \<and> (5::real) < 10 \<and>
   onOrderUpdate example_codec 3 wire_no_state example_registry = example_registry \<and>
   map_option status (orders (onOrderUpdate example_codec 3 wire_no_state example_registry) ''order_1'')
     = Some OPEN"
  by (simp add: example_codec_values data_no_state_def example_registry_order
      onOrderUpdate_def onOrderUpdate_data_def)

lemma position_pair_access:
  "position_pair e = Some (i, z) \<Longrightarrow>
     at_key_const e ''instrument_name'' = Value (JString i) \<and> at_key_const e ''size'' = Value (JNumber z)"
  by (cases e) (auto split: option.splits json.splits)

lemma repopulate_pairs:
  "map position_pair es = map Some pairs \<Longrightarrow> repopulate es tab = Finished (tab ++ map_of (rev pairs))"
proof (induction es arbitrary: pairs tab)
  case Nil
  then show ?case by simp
next
  case (Cons e es)
  then obtain i z ps where p: "pairs = (i, z) # ps" "position_pair e = Some (i, z)"
      "map position_pair es = map Some ps"
    by (cases pairs) auto
  have "repopulate (e # es) tab = repopulate es (tab(i \<mapsto> z))"
    using position_pair_access [OF p(2)] by simp
  also have "\<dots> = Finished (tab(i \<mapsto> z) ++ map_of (rev ps))" by (rule Cons.IH [OF p(3)])
  also have "tab(i \<mapsto> z) ++ map_of (rev ps) = tab ++ map_of (rev pairs)"
    by (simp add: p(1) map_add_def fun_eq_iff split: option.splits)
  finally show ?case .
qed

lemma map_of_rev_distinct: "distinct (map fst xs) \<Longrightarrow> map_of (rev xs) = map_of xs"
proof (induction xs)
  case Nil
  then show ?case by simp
next
  case (Cons x xs)
  then have "fst x \<notin> dom (map_of xs)" by (simp add: dom_map_of_conv_image_fst)
  then show ?case using Cons
    by (cases x) (auto simp: map_add_def fun_eq_iff split: option.splits)
qed

text \<open>
  Claim C6. Let a position update decode to an array whose entries carry, in order, the
  instrument and size pairs \<open>pairs\<close>, with no instrument twice. Whatever the position
  table held before, \<open>onPositionUpdate\<close> makes it the table of exactly those pairs: its
  instruments are those of \<open>pairs\<close>, there are as many as there are pairs, and every other
  instrument, those of the previous table included, has no entry. The orders are
  untouched.
\<close>

theorem onPositionUpdate_replaces:
  assumes "parse position_data = Some (JArray entries)"
    and "map position_pair entries = map Some pairs"
    and "distinct (map fst pairs)"
  shows "\<exists>s'. onPositionUpdate parse position_data s = Some s' \<and>
           positions s' = map_of pairs \<and>
           dom (positions s') = fst ` set pairs \<and>
           card (dom (positions s')) = length pairs \<and>
           orders s' = orders s"
proof -
  have "repopulate entries Map.empty = Finished (map_of pairs)"
    using repopulate_pairs [OF assms(2), of Map.empty] map_of_rev_distinct [OF assms(3)] by simp
  then have "onPositionUpdate parse position_data s = Some (s\<lparr>positions := map_of pairs\<rparr>)"
    using assms(1) by (simp add: onPositionUpdate_def onPositionUpdate_data_def)
  moreover have "card (fst ` set pairs) = length pairs"
    using assms(3) distinct_card [of "map fst pairs"] by simp
  ultimately show ?thesis by (simp add: dom_map_of_conv_image_fst)
qed

theorem onPositionUpdate_replaces_witness:
  "positions example_positions ''SOL-PERPETUAL'' = Some 3 \<and>
   (\<exists>s'. onPositionUpdate example_codec wire_positions example_positions = Some s' \<and>
      positions s' ''BTC-PERPETUAL'' = Some 0.5 \<and>
      positions s' ''ETH-PERPETUAL'' = Some (- 1) \<and>
      positions s' ''SOL-PERPETUAL'' = None \<and>
      card (dom (positions s')) = 2)"
proof -
  let ?entries = "[JObject [(''instrument_name'', JString ''BTC-PERPETUAL''), (''size'', JNumber (0.5::real))],
      JObject [(''instrument_name'', JString ''ETH-PERPETUAL''), (''size'', JNumber (- 1))]]"
  let ?pairs = "[(''BTC-PERPETUAL'', 0.5::real), (''ETH-PERPETUAL'', - 1)]"
  have 1: "example_codec wire_positions = Some (JArray ?entries)"
    by (simp add: example_codec_values data_positions_def)
  have 2: "map position_pair ?entries = map Some ?pairs" by simp
  have 3: "distinct (map fst ?pairs)" by simp
  have 4: "positions example_positions ''SOL-PERPETUAL'' = Some 3"
    by (simp add: example_positions_def)
  obtain s' where s': "onPositionUpdate example_codec wire_positions example_positions = Some s'"
      "positions s' = map_of ?pairs" "card (dom (positions s')) = length ?pairs"
    using onPositionUpdate_replaces
        [where parse = example_codec and position_data = wire_positions and entries = ?entries
           and pairs = ?pairs and s = example_positions, OF 1 2 3]
    by blast
  show ?thesis using 4 s' by simp
qed

section \<open>Proofs: order book cache\<close>

lemma processMessage_data_cases:
  "(\<forall>now s. processMessage_data now data s = (s, None)) \<or>
   (\<exists>instr bs as. \<forall>now s. processMessage_data now data s =
      (s\<lparr>orderbooks := (orderbooks s)(instr \<mapsto>
           \<lparr>instrument_book = instr, bids = bs, asks = as, timestamp = now\<rparr>)\<rparr>,
       if orderbook_callback s then
         Some \<lparr>instrument_book = instr, bids = bs, asks = as, timestamp = now\<rparr> else None))"
proof -
  let ?guard = "contains data ''method'' \<and> at_key data ''method'' = Some (JString ''subscription'')
         \<and> contains data ''params''
         \<and> (case at_key data ''params'' of Some params \<Rightarrow> contains params ''channel'' | None \<Rightarrow> False)"
  let ?channel = "Option.bind (Option.bind (at_key data ''params'') (\<lambda>params. at_key params ''channel'')) get_string"
  let ?payload = "Option.bind (at_key data ''params'') (\<lambda>params. at_key params ''data'')"
  consider (dropped) "\<not> ?guard \<or> ?channel = None \<or> (\<exists>channel. ?channel = Some channel \<and> take 5 channel \<noteq> ''book.'')
       \<or> ?payload = None \<or> (\<exists>d. ?payload = Some d \<and> (book_side d ''bids'' = None \<or> book_side d ''asks'' = None))"
    | (stored) channel d bs as where "?guard" "?channel = Some channel" "take 5 channel = ''book.''"
       "?payload = Some d" "book_side d ''bids'' = Some bs" "book_side d ''asks'' = Some as"
    by (cases ?channel; cases ?payload; force)
  then show ?thesis
  proof cases
    case dropped
    then have "\<forall>now s. processMessage_data now data s = (s, None)"
      unfolding processMessage_data_def by (auto split: option.splits)
    then show ?thesis by blast
  next
    case stored
    then have "\<forall>now s. processMessage_data now data s =
      (s\<lparr>orderbooks := (orderbooks s)(channel_instrument channel \<mapsto>
           \<lparr>instrument_book = channel_instrument channel, bids = bs, asks = as, timestamp = now\<rparr>)\<rparr>,
       if orderbook_callback s then
         Some \<lparr>instrument_book = channel_instrument channel, bids = bs, asks = as, timestamp = now\<rparr> else None)"
      unfolding processMessage_data_def by (simp add: Let_def)
    then show ?thesis by blast
  qed
qed

lemma processMessage_cases:
  "(\<forall>now s. processMessage parse now m s = (s, None)) \<or>
   (\<exists>instr bs as. \<forall>now s. processMessage parse now m s =
      (s\<lparr>orderbooks := (orderbooks s)(instr \<mapsto>
           \<lparr>instrument_book = instr, bids = bs, asks = as, timestamp = now\<rparr>)\<rparr>,
       if orderbook_callback s then
         Some \<lparr>instrument_book = instr, bids = bs, asks = as, timestamp = now\<rparr> else None))"
proof (cases "parse m")
  case None
  then show ?thesis by (simp add: processMessage_def)
next
  case (Some data)
  then show ?thesis using processMessage_data_cases[of data] by (simp add: processMessage_def)
qed

text \<open>
  Claim C4. Ingesting the same raw message twice leaves the state that ingesting it once
  leaves: the second ingestion replaces whatever the first one stored, so the state
  after both is the state that one ingestion at the second clock reading produces from
  the start. Against one ingestion at the first reading, the cache holds the same books
  with the same levels and differs at most in the ingestion time of the replaced book;
  every other part of the state is the same.
\<close>

theorem processMessage_idempotent:
  "fst (processMessage parse now2 m (fst (processMessage parse now1 m s)))
     = fst (processMessage parse now2 m s) \<and>
   cache_untimed (fst (processMessage parse now2 m (fst (processMessage parse now1 m s))))
     = cache_untimed (fst (processMessage parse now1 m s)) \<and>
   fst (processMessage parse now2 m (fst (processMessage parse now1 m s)))
     = (fst (processMessage parse now1 m s))
         \<lparr>orderbooks := orderbooks (fst (processMessage parse now2 m (fst (processMessage parse now1 m s))))\<rparr>"
  using processMessage_cases [of parse m]
proof (elim disjE exE)
  assume "\<forall>now s. processMessage parse now m s = (s, None)"
  then show ?thesis by simp
next
  fix instr bs as
  assume "\<forall>now s. processMessage parse now m s =
      (s\<lparr>orderbooks := (orderbooks s)(instr \<mapsto>
           \<lparr>instrument_book = instr, bids = bs, asks = as, timestamp = now\<rparr>)\<rparr>,
       if orderbook_callback s then
         Some \<lparr>instrument_book = instr, bids = bs, asks = as, timestamp = now\<rparr> else None)"
  then show ?thesis by (simp add: cache_untimed_def untimed_def fun_eq_iff)
qed

theorem processMessage_idempotent_witness:
  "orderbooks (fst (processMessage example_codec 2 wire_book
       (fst (processMessage example_codec 1 wire_book MarketDataClient_init)))) ''BTC-PERPETUAL''
     = Some \<lparr>instrument_book = ''BTC-PERPETUAL'',
              bids = [\<lparr>price_level = 50000, size_level = 2\<rparr>],
              asks = [\<lparr>price_level = 50001, size_level = 3\<rparr>], timestamp = 2\<rparr> \<and>
   cache_untimed (fst (processMessage example_codec 2 wire_book
       (fst (processMessage example_codec 1 wire_book MarketDataClient_init)))) ''BTC-PERPETUAL''
     = cache_untimed (fst (processMessage example_codec 1 wire_book MarketDataClient_init)) ''BTC-PERPETUAL''"
proof -
  have "orderbooks (fst (processMessage example_codec 2 wire_book MarketDataClient_init)) ''BTC-PERPETUAL''
     = Some \<lparr>instrument_book = ''BTC-PERPETUAL'',
              bids = [\<lparr>price_level = 50000, size_level = 2\<rparr>],
              asks = [\<lparr>price_level = 50001, size_level = 3\<rparr>], timestamp = 2\<rparr>"
    by (simp add: processMessage_def example_codec_values data_book_def processMessage_data_def
        book_side_def channel_instrument_def Let_def MarketDataClient_init_def)
  note once = this
  note both = processMessage_idempotent [of example_codec 2 wire_book 1 MarketDataClient_init]
  have a: "orderbooks (fst (processMessage example_codec 2 wire_book
       (fst (processMessage example_codec 1 wire_book MarketDataClient_init)))) ''BTC-PERPETUAL''
     = Some \<lparr>instrument_book = ''BTC-PERPETUAL'',
              bids = [\<lparr>price_level = 50000, size_level = 2\<rparr>],
              asks = [\<lparr>price_level = 50001, size_level = 3\<rparr>], timestamp = 2\<rparr>"
    using both [THEN conjunct1] once by simp
  have b: "cache_untimed (fst (processMessage example_codec 2 wire_book
       (fst (processMessage example_codec 1 wire_book MarketDataClient_init)))) ''BTC-PERPETUAL''
     = cache_untimed (fst (processMessage example_codec 1 wire_book MarketDataClient_init)) ''BTC-PERPETUAL''"
    using both [THEN conjunct2, THEN conjunct1] by simp
  show ?thesis by (rule conjI [OF a b])
qed

text \<open>
  Claim C8. \<open>getOrderbook\<close> returns a book for every state and every instrument, never
  an exception, and returns the state as it was. When the cache holds no book for the
  instrument, the book returned carries the queried instrument and has no bid and no
  ask level.
\<close>

theorem getOrderbook_missing:
  "fst (getOrderbook unset s instr) \<noteq> None \<and> snd (getOrderbook unset s instr) = s \<and>
   (orderbooks s instr = None \<longrightarrow>
      fst (getOrderbook unset s instr) =
        Some \<lparr>instrument_book = instr, bids = [], asks = [], timestamp = unset\<rparr>)"
  by (simp add: getOrderbook_def)

theorem getOrderbook_missing_witness:
  "orderbooks (MarketDataClient_init :: real MarketDataClient) ''ETH-PERPETUAL'' = None \<and>
   getOrderbook 0 (MarketDataClient_init :: real MarketDataClient) ''ETH-PERPETUAL'' =
     (Some \<lparr>instrument_book = ''ETH-PERPETUAL'', bids = [], asks = [], timestamp = 0\<rparr>,
      MarketDataClient_init)"
proof -
  have "orderbooks (MarketDataClient_init :: real MarketDataClient) ''ETH-PERPETUAL'' = None"
    by (simp add: MarketDataClient_init_def)
  then show ?thesis
    using getOrderbook_missing [of 0 "MarketDataClient_init :: real MarketDataClient" "''ETH-PERPETUAL''"]
    by (simp add: prod_eq_iff)
qed

lemma side_levels_roundtrip: "side_levels (map level_json ls) = Some ls"
  by (induction ls) (simp_all add: level_json_def)

lemma channel_instrument_book:
  "CHR ''.'' \<notin> set X \<Longrightarrow> channel_instrument (''book.'' @ X @ ''.'' @ suffix) = X"
  by (auto simp: channel_instrument_def takeWhile_append2 takeWhile_tail)

lemma processMessage_data_stores:
  assumes "map_of kvs ''method'' = Some (JString ''subscription'')"
    and "map_of kvs ''params'' = Some (JObject ps)"
    and "map_of ps ''channel'' = Some (JString (''book.'' @ X @ ''.'' @ suffix))"
    and "CHR ''.'' \<notin> set X"
    and "map_of ps ''data'' = Some (JObject dkvs)"
    and "map_of dkvs ''bids'' = Some (JArray (map level_json bs))"
    and "map_of dkvs ''asks'' = Some (JArray (map level_json as))"
  shows "processMessage_data now (JObject kvs) s =
     (s\<lparr>orderbooks := (orderbooks s)(X \<mapsto>
           \<lparr>instrument_book = X, bids = bs, asks = as, timestamp = now\<rparr>)\<rparr>,
      if orderbook_callback s then
        Some \<lparr>instrument_book = X, bids = bs, asks = as, timestamp = now\<rparr> else None)"
proof -
  have b: "book_side (JObject dkvs) ''bids'' = Some bs" "book_side (JObject dkvs) ''asks'' = Some as"
    using assms(6,7) by (simp_all add: book_side_def side_levels_roundtrip)
  have c: "channel_instrument (''book.'' @ X @ ''.'' @ suffix) = X"
    using assms(4) by (rule channel_instrument_book)
  show ?thesis
    unfolding processMessage_data_def using assms(1,2,3,5) b c by (simp add: Let_def)
qed

text \<open>
  Claim C10. Let a message decode to a subscription notice on a channel
  \<^verbatim>\<open>book.X.\<close>\<open>\<dots>\<close> whose data carry well-formed bid and ask levels, and let \<open>X\<close> not be in
  the subscription set. \<open>processMessage\<close> stores the book for \<open>X\<close> all the same, stamped
  with the clock reading, and hands it to the listener when one is registered; nothing
  else of the state changes, and \<open>getOrderbook\<close> for \<open>X\<close> then returns that book.
\<close>

theorem processMessage_unsubscribed:
  assumes "parse message = Some (JObject kvs)"
    and "map_of kvs ''method'' = Some (JString ''subscription'')"
    and "map_of kvs ''params'' = Some (JObject ps)"
    and "map_of ps ''channel'' = Some (JString (''book.'' @ X @ ''.'' @ suffix))"
    and "CHR ''.'' \<notin> set X"
    and "map_of ps ''data'' = Some (JObject dkvs)"
    and "map_of dkvs ''bids'' = Some (JArray (map level_json bs))"
    and "map_of dkvs ''asks'' = Some (JArray (map level_json as))"
    and "X \<notin> set (subscriptions s)"
  shows "fst (processMessage parse now message s) =
           s\<lparr>orderbooks := (orderbooks s)(X \<mapsto>
                \<lparr>instrument_book = X, bids = bs, asks = as, timestamp = now\<rparr>)\<rparr> \<and>
         snd (processMessage parse now message s) =
           (if orderbook_callback s
            then Some \<lparr>instrument_book = X, bids = bs, asks = as, timestamp = now\<rparr> else None) \<and>
         fst (getOrderbook unset (fst (processMessage parse now message s)) X) =
           Some \<lparr>instrument_book = X, bids = bs, asks = as, timestamp = now\<rparr> \<and>
         X \<notin> set (subscriptions (fst (processMessage parse now message s)))"
  using assms(1,9) processMessage_data_stores [OF assms(2-8), of now s]
  by (simp add: processMessage_def getOrderbook_def)

theorem processMessage_unsubscribed_witness:
  "''BTC-PERPETUAL'' \<notin> set (subscriptions (setOrderbookCallback (MarketDataClient_init :: real MarketDataClient))) \<and>
   snd (processMessage example_codec 7 wire_book (setOrderbookCallback MarketDataClient_init)) =
     Some \<lparr>instrument_book = ''BTC-PERPETUAL'',
            bids = [\<lparr>price_level = 50000, size_level = 2\<rparr>],
            asks = [\<lparr>price_level = 50001, size_level = 3\<rparr>], timestamp = 7\<rparr> \<and>
   fst (getOrderbook 0 (fst (processMessage example_codec 7 wire_book
          (setOrderbookCallback MarketDataClient_init))) ''BTC-PERPETUAL'') =
     Some \<lparr>instrument_book = ''BTC-PERPETUAL'',
            bids = [\<lparr>price_level = 50000, size_level = 2\<rparr>],
            asks = [\<lparr>price_level = 50001, size_level = 3\<rparr>], timestamp = 7\<rparr>"
proof -
  let ?dkvs = "[(''bids'', JArray [JArray [JNumber (50000::real), JNumber 2]]),
              (''asks'', JArray [JArray [JNumber 50001, JNumber 3]])]"
  let ?ps = "[(''channel'', JString ''book.BTC-PERPETUAL.none.10.100ms''), (''data'', JObject ?dkvs)]"
  let ?kvs = "[(''method'', JString ''subscription''), (''params'', JObject ?ps)]"
  let ?s = "setOrderbookCallback (MarketDataClient_init :: real MarketDataClient)"
  have 1: "example_codec wire_book = Some (JObject ?kvs)"
    by (simp add: example_codec_values data_book_def)
  have 2: "map_of ?kvs ''method'' = Some (JString ''subscription'')" by simp
  have 3: "map_of ?kvs ''params'' = Some (JObject ?ps)" by simp
  have 4: "map_of ?ps ''channel'' = Some (JString (''book.'' @ ''BTC-PERPETUAL'' @ ''.'' @ ''none.10.100ms''))"
    by simp
  have 5: "CHR ''.'' \<notin> set ''BTC-PERPETUAL''" by simp
  have 6: "map_of ?ps ''data'' = Some (JObject ?dkvs)" by simp
  have 7: "map_of ?dkvs ''bids'' = Some (JArray (map level_json [\<lparr>price_level = 50000, size_level = 2\<rparr>]))"
    by (simp add: level_json_def)
  have 8: "map_of ?dkvs ''asks'' = Some (JArray (map level_json [\<lparr>price_level = 50001, size_level = 3\<rparr>]))"
    by (simp add: level_json_def)
  have 9: "''BTC-PERPETUAL'' \<notin> set (subscriptions ?s)"
    by (simp add: setOrderbookCallback_def MarketDataClient_init_def)
  have cb: "orderbook_callback ?s"
    by (simp add: setOrderbookCallback_def)
  note stored = processMessage_unsubscribed
        [where parse = example_codec and message = wire_book and kvs = ?kvs and ps = ?ps
           and X = "''BTC-PERPETUAL''" and suffix = "''none.10.100ms''" and dkvs = ?dkvs
           and s = ?s and now = 7 and unset = 0, OF 1 2 3 4 5 6 7 8 9]
  show ?thesis
    using 9 cb stored [THEN conjunct2, THEN conjunct1]
      stored [THEN conjunct2, THEN conjunct2, THEN conjunct1]
    by simp
qed

section \<open>Proofs: subscription broker\<close>

lemma entry_upd: "entry (m(k \<mapsto> S)) j = (if j = k then S else entry m j)"
  by (simp add: entry_def)

lemma entry_del: "entry (m(k := None)) j = (if j = k then {||} else entry m j)"
  by (simp add: entry_def)

lemma entry_erase_subscriber:
  "entry (erase_subscriber cid i subs) j = (if j = i then entry subs i |-| {|cid|} else entry subs j)"
  by (auto simp: erase_subscriber_def entry_def split: option.splits)

lemma entry_fold_erase:
  "entry (fold (erase_subscriber cid) is subs) j =
     (if j \<in> set is then entry subs j |-| {|cid|} else entry subs j)"
proof (induction "is" arbitrary: subs)
  case Nil
  then show ?case by simp
next
  case (Cons i "is")
  show ?case by (auto simp: Cons.IH entry_erase_subscriber)
qed

lemma agree_init: "agree WebSocketServer_init"
  by (simp add: agree_def WebSocketServer_init_def entry_def)

lemma agree_add: "agree s \<Longrightarrow> agree (fst (addSubscription c i s))"
  by (auto simp: agree_def addSubscription_def Let_def entry_upd)

lemma forward_remove:
  "entry (client_subscriptions (fst (removeSubscription c i s))) cid =
     (if cid = getId c then entry (client_subscriptions s) cid |-| {|i|} else entry (client_subscriptions s) cid)"
  by (auto simp: removeSubscription_def Let_def entry_def split: option.splits)

lemma reverse_remove:
  "entry (instrument_subscribers (fst (removeSubscription c i s))) j =
     (if j = i then entry (instrument_subscribers s) j |-| {|getId c|} else entry (instrument_subscribers s) j)"
  by (simp add: removeSubscription_def Let_def entry_erase_subscriber)

lemma agree_remove: "agree s \<Longrightarrow> agree (fst (removeSubscription c i s))"
  unfolding agree_def forward_remove reverse_remove by auto

lemma forward_removeAll:
  "entry (client_subscriptions (removeAllSubscriptions c s)) cid =
     (if cid = getId c then {||} else entry (client_subscriptions s) cid)"
  by (simp add: removeAllSubscriptions_def Let_def entry_del)

lemma reverse_removeAll:
  "entry (instrument_subscribers (removeAllSubscriptions c s)) j =
     (if j |\<in>| entry (client_subscriptions s) (getId c)
      then entry (instrument_subscribers s) j |-| {|getId c|} else entry (instrument_subscribers s) j)"
proof -
  have "(case client_subscriptions s (getId c) of None \<Rightarrow> {||} | Some S \<Rightarrow> S)
          = entry (client_subscriptions s) (getId c)"
    by (simp add: entry_def)
  then show ?thesis
    by (simp add: removeAllSubscriptions_def Let_def entry_fold_erase)
qed

lemma agree_removeAll: "agree s \<Longrightarrow> agree (removeAllSubscriptions c s)"
  unfolding agree_def forward_removeAll reverse_removeAll by auto

lemma agree_step: "agree s \<Longrightarrow> agree (subscription_step call s)"
  by (cases call) (simp_all add: agree_add agree_remove agree_removeAll)

lemma agree_history: "agree s \<Longrightarrow> agree (subscription_history calls s)"
  unfolding subscription_history_def
  by (induction calls arbitrary: s) (simp_all add: agree_step)

lemma getSubscriptions_entry: "getSubscriptions c s = Some (entry (client_subscriptions s) (getId c))"
  by (auto simp: getSubscriptions_def entry_def)

text \<open>
  Claim C1. After any sequence of \<open>addSubscription\<close>, \<open>removeSubscription\<close> and
  \<open>removeAllSubscriptions\<close> calls on a new broker the two indexes hold the same pairs:
  an instrument is among the subscriptions of a connection id exactly when the id is
  among the subscribers of the instrument. In such a state, a further
  \<open>addSubscription\<close> of \<open>c\<close> to \<open>i\<close> puts \<open>i\<close> among what \<open>getSubscriptions\<close> returns for
  \<open>c\<close>, and after \<open>removeAllSubscriptions\<close> of \<open>c\<close> that set is empty and no instrument
  has \<open>c\<close> among its subscribers.
\<close>

theorem subscription_indexes_agree:
  "(let s = subscription_history calls WebSocketServer_init in
      agree s \<and>
      (\<exists>S. getSubscriptions c (fst (addSubscription c i s)) = Some S \<and> i |\<in>| S) \<and>
      getSubscriptions c (removeAllSubscriptions c s) = Some {||} \<and>
      (\<forall>j. getId c |\<notin>| entry (instrument_subscribers (removeAllSubscriptions c s)) j))"
proof -
  define s where "s = subscription_history calls WebSocketServer_init"
  have a: "agree s" unfolding s_def by (rule agree_history[OF agree_init])
  have 1: "\<exists>S. getSubscriptions c (fst (addSubscription c i s)) = Some S \<and> i |\<in>| S"
    by (simp add: getSubscriptions_entry addSubscription_def Let_def entry_upd)
  have 2: "getSubscriptions c (removeAllSubscriptions c s) = Some {||}"
    by (simp add: getSubscriptions_entry forward_removeAll)
  have 3: "getId c |\<notin>| entry (instrument_subscribers (removeAllSubscriptions c s)) j" for j
    using a by (auto simp: reverse_removeAll agree_def)
  show ?thesis using a 1 2 3 by (simp add: s_def[symmetric] Let_def)
qed

theorem subscription_indexes_agree_witness:
  "getId bob |\<in>| entry (instrument_subscribers
      (subscription_history example_subscription_calls WebSocketServer_init)) ''BTC-PERPETUAL'' \<and>
   agree (subscription_history example_subscription_calls WebSocketServer_init) \<and>
   (\<exists>S. getSubscriptions bob (fst (addSubscription bob ''ETH-PERPETUAL''
       (subscription_history example_subscription_calls WebSocketServer_init))) = Some S
      \<and> ''ETH-PERPETUAL'' |\<in>| S) \<and>
   getSubscriptions bob (removeAllSubscriptions bob
       (subscription_history example_subscription_calls WebSocketServer_init)) = Some {||} \<and>
   getId bob |\<notin>| entry (instrument_subscribers (removeAllSubscriptions bob
       (subscription_history example_subscription_calls WebSocketServer_init))) ''BTC-PERPETUAL''"
proof -
  have before: "getId bob |\<in>| entry (instrument_subscribers
      (subscription_history example_subscription_calls WebSocketServer_init)) ''BTC-PERPETUAL''"
    by (simp add: subscription_history_def example_subscription_calls_def reverse_remove
        addSubscription_def Let_def entry_upd alice_def bob_def)
  show ?thesis
    using before
      subscription_indexes_agree [of example_subscription_calls bob "''ETH-PERPETUAL''"]
    by (simp add: Let_def)
qed

text \<open>
  Claim C7. For every state of the broker, \<open>broadcastToSubscribers\<close> sends the message
  to exactly the connections that the connection table holds for the ids subscribed to
  the instrument: each of them is sent the message, nothing else is sent, and a
  subscribed id that the table does not hold contributes no send. When the table holds
  every connection under its own id, as \<open>onAccept\<close> enters them, the connections sent
  to are the connections of the table whose id is subscribed to the instrument.
\<close>

theorem broadcast_recipients:
  "set (broadcastToSubscribers instr m s) =
     {(conn, m) | conn. \<exists>cid. cid |\<in>| entry (instrument_subscribers s) instr \<and> clients s cid = Some conn} \<and>
   ((\<forall>cid conn. clients s cid = Some conn \<longrightarrow> getId conn = cid) \<longrightarrow>
      fst ` set (broadcastToSubscribers instr m s) =
        {conn \<in> ran (clients s). getId conn |\<in>| entry (instrument_subscribers s) instr})"
proof -
  have r: "set (List.map_filter f xs) = {y. \<exists>x\<in>set xs. f x = Some y}"
    for f :: "string \<Rightarrow> Connection option" and xs
    by (induction xs) (auto split: option.splits)
  have sends: "set (broadcastToSubscribers instr m s) =
     {(conn, m) | conn. \<exists>cid. cid |\<in>| entry (instrument_subscribers s) instr \<and> clients s cid = Some conn}"
    by (auto simp: broadcastToSubscribers_def Let_def entry_def r split: option.splits)
  have "fst ` set (broadcastToSubscribers instr m s) =
        {conn \<in> ran (clients s). getId conn |\<in>| entry (instrument_subscribers s) instr}"
    if "\<forall>cid conn. clients s cid = Some conn \<longrightarrow> getId conn = cid"
    unfolding sends using that by (force simp: ran_def)
  then show ?thesis using sends by blast
qed

theorem broadcast_recipients_witness:
  "getId alice |\<in>| entry (instrument_subscribers example_server) ''BTC-PERPETUAL'' \<and>
   getId bob |\<in>| entry (instrument_subscribers example_server) ''BTC-PERPETUAL'' \<and>
   clients example_server (getId bob) = None \<and>
   {(conn, ''tick'') | conn. \<exists>cid. cid |\<in>| entry (instrument_subscribers example_server) ''BTC-PERPETUAL''
        \<and> clients example_server cid = Some conn} = {(alice, ''tick'')} \<and>
   {conn \<in> ran (clients example_server).
      getId conn |\<in>| entry (instrument_subscribers example_server) ''BTC-PERPETUAL''} = {alice}"
proof -
  have sends: "broadcastToSubscribers ''BTC-PERPETUAL'' ''tick'' example_server = [(alice, ''tick'')]"
    by code_simp
  have subs: "getId alice |\<in>| entry (instrument_subscribers example_server) ''BTC-PERPETUAL''"
    "getId bob |\<in>| entry (instrument_subscribers example_server) ''BTC-PERPETUAL''"
    "clients example_server (getId bob) = None"
    by (simp_all add: example_server_def addSubscription_def onAccept_def Let_def entry_def
        WebSocketServer_init_def alice_def bob_def)
  have table: "\<forall>cid conn. clients example_server cid = Some conn \<longrightarrow> getId conn = cid"
    by (simp add: example_server_def addSubscription_def onAccept_def Let_def
        WebSocketServer_init_def)
  note b = broadcast_recipients [of "''BTC-PERPETUAL''" "''tick''" example_server]
  have 1: "{(conn, ''tick'') | conn. \<exists>cid. cid |\<in>| entry (instrument_subscribers example_server) ''BTC-PERPETUAL''
        \<and> clients example_server cid = Some conn} = {(alice, ''tick'')}"
    using b [THEN conjunct1] sends by simp
  have 2: "{conn \<in> ran (clients example_server).
      getId conn |\<in>| entry (instrument_subscribers example_server) ''BTC-PERPETUAL''} = {alice}"
    using b [THEN conjunct2, THEN mp, OF table] sends by simp
  show ?thesis using subs 1 2 by simp
qed

end
